theory Spec2Isabelle
  imports Complex_Main
begin

section \<open>JavaScript values used by the services\<close>

text \<open>
  Strings are Isabelle strings: a character stands for a UTF-16 code unit in the range
  U+0000 to U+00FF. What is thrown (or what a promise rejects with) is either an instance
  of \<open>Error\<close> with its \<open>message\<close>, or some other value.
\<close>

datatype thrown = JsError string | NonError

text \<open>\<open>String.prototype.includes\<close>: the argument occurs as a contiguous substring.\<close>

fun js_includes :: "string \<Rightarrow> string \<Rightarrow> bool" where
  "js_includes [] sub = (sub = [])"
| "js_includes (c # cs) sub = (take (length sub) (c # cs) = sub \<or> js_includes cs sub)"

text \<open>
  \<open>String.prototype.trim\<close> removes leading and trailing WhiteSpace and LineTerminator
  code units; below U+0100 these are TAB, LF, VT, FF, CR, SPACE and NO-BREAK SPACE.
\<close>

definition is_ws :: "char \<Rightarrow> bool" where
  "is_ws c = ((of_char c :: nat) \<in> {9, 10, 11, 12, 13, 32, 160})"

definition trim :: "string \<Rightarrow> string" where
  "trim s = rev (dropWhile is_ws (rev (dropWhile is_ws s)))"

text \<open>
  \<open>String.prototype.toLowerCase\<close> below U+0100: A to Z and the Latin-1 capitals
  U+00C0 to U+00DE (without the multiplication sign U+00D7) move up by 32.
\<close>

definition lower_char :: "char \<Rightarrow> char" where
  "lower_char c =
     (let n = (of_char c :: nat)
      in if (65 \<le> n \<and> n \<le> 90) \<or> (192 \<le> n \<and> n \<le> 222 \<and> n \<noteq> 215)
         then char_of (n + 32) else c)"

definition toLowerCase :: "string \<Rightarrow> string" where
  "toLowerCase s = map lower_char s"

text \<open>
  The value \<open>JSON.parse\<close> returns. A number is the real number it stands for, of
  which only whether it is zero is ever read (an overflowing literal decodes to
  \<open>Infinity\<close>, which is truthy like every other number that is not zero). An object is
  its list of own properties, each key once; a property that is not there reads as
  \<open>undefined\<close>, which is \<open>None\<close> here.
\<close>

datatype json =
    JNull
  | JBool bool
  | JNum real
  | JStr string
  | JArr "json list"
  | JObj "(string \<times> json) list"

text \<open>JavaScript truthiness of a decoded value, and of a property read.\<close>

fun truthy :: "json \<Rightarrow> bool" where
  "truthy JNull = False"
| "truthy (JBool b) = b"
| "truthy (JNum n) = (n \<noteq> 0)"
| "truthy (JStr s) = (s \<noteq> [])"
| "truthy (JArr xs) = True"
| "truthy (JObj fs) = True"

fun truthy_opt :: "json option \<Rightarrow> bool" where
  "truthy_opt None = False"
| "truthy_opt (Some v) = truthy v"

text \<open>\<open>typeof v === 'object'\<close>: \<open>null\<close>, arrays and objects.\<close>

fun typeof_object :: "json \<Rightarrow> bool" where
  "typeof_object JNull = True"
| "typeof_object (JArr xs) = True"
| "typeof_object (JObj fs) = True"
| "typeof_object v = False"

text \<open>
  \<open>v.faceShape\<close>, \<open>v.hairstyles\<close> on a value that is not \<open>null\<close>: an object gives its
  property, every other value (an array, a string, a number, a boolean) has no property of
  these names. Reading a property of \<open>null\<close> would throw; the source never does it, since
  \<open>!result\<close> is tested first.
\<close>

fun get_prop :: "json \<Rightarrow> string \<Rightarrow> json option" where
  "get_prop (JObj fs) k = map_of fs k"
| "get_prop v k = None"

section \<open>Requests and responses of the generative service\<close>

text \<open>
  The types of the service's client library are not part of the repository; they are
  written here as the two functions read them. A field the code tests before reading is
  optional, and so are \<open>content\<close> and \<open>parts\<close>, which the client library declares
  optional and the code reads without a test: reading through an absent one throws a
  \<open>TypeError\<close>.
\<close>

record Blob =
  data :: "string option"
  mimeType :: "string option"

record Part =
  inlineData :: "Blob option"
  part_text :: "string option"

record Content =
  parts :: "Part list option"

record Candidate =
  content :: "Content option"

record PromptFeedback =
  blockReason :: "string option"

record GenerateContentResponse =
  promptFeedback :: "PromptFeedback option"
  candidates :: "Candidate list option"

text \<open>
  The response as the analysis reads it: the getter \<open>response.text\<close> is a string or
  \<open>undefined\<close>.
\<close>

record AnalysisResponse =
  resp_text :: "string option"

text \<open>The request: the model's name and the parts sent (the image, then the prompt).\<close>

record Request =
  model :: string
  contents :: "Part list"

definition fileToGenerativePart :: "string \<Rightarrow> string \<Rightarrow> Part" where
  "fileToGenerativePart base64Data mime =
     \<lparr>inlineData = Some \<lparr>data = Some base64Data, mimeType = Some mime\<rparr>, part_text = None\<rparr>"

definition text_part :: "string \<Rightarrow> Part" where
  "text_part t = \<lparr>inlineData = None, part_text = Some t\<rparr>"

text \<open>A value placed in a template literal: \<open>undefined\<close> prints as the word.\<close>

fun template :: "string option \<Rightarrow> string" where
  "template None = ''undefined''"
| "template (Some s) = s"

definition quoted :: "string \<Rightarrow> string" where
  "quoted s = [CHR 0x27] @ s @ [CHR 0x27]"

fun join_lines :: "string list \<Rightarrow> string" where
  "join_lines [] = []"
| "join_lines [l] = l"
| "join_lines (l # ls) = l @ [CHR 0x0A] @ join_lines ls"

section \<open>Analysis client: \<open>analyzeFaceShape\<close>\<close>

definition analysis_prompt :: string where
  \<open>analysis_prompt = ''Analisis bentuk wajah pada gambar ini (misalnya, Oval, Bulat, Kotak, Hati, Berlian). Selain itu, tentukan panjang rambut saat ini (misalnya, "Pendek", "Sebahu", "Panjang"). Berdasarkan bentuk yang teridentifikasi, rekomendasikan 3 gaya rambut yang berbeda dan cocok dengan deskripsi singkat satu kalimat untuk masing-masing. Berikan respons secara ketat dalam format JSON yang ditentukan.''\<close>

definition empty_response_message :: string where
  "empty_response_message = ''AI mengembalikan respons kosong. Coba foto lain.''"

definition malformed_response_message :: string where
  "malformed_response_message =
     ''AI mengembalikan data dalam format yang tidak terduga. Silakan coba lagi.''"

definition analysis_failed_message :: string where
  "analysis_failed_message = ''Gagal menganalisis gambar. Silakan coba foto lain.''"

text \<open>The \<open>catch\<close> block of \<open>analyzeFaceShape\<close>: what it throws for a caught value.\<close>

fun analysis_catch :: "thrown \<Rightarrow> thrown" where
  "analysis_catch (JsError m) =
     (if js_includes m ''AI mengembalikan'' then JsError m else JsError analysis_failed_message)"
| "analysis_catch NonError = JsError analysis_failed_message"

text \<open>
  The test on the decoded \<open>result\<close> that guards the unexpected-format throw:
  \<open>!result || typeof result !== 'object' || !result.faceShape || !result.hairstyles\<close>.
\<close>

definition is_invalid_structure :: "json \<Rightarrow> bool" where
  "is_invalid_structure r =
     (\<not> truthy r \<or> \<not> typeof_object r \<or> \<not> truthy_opt (get_prop r ''faceShape'')
        \<or> \<not> truthy_opt (get_prop r ''hairstyles''))"

text \<open>
  \<open>analyzeFaceShape\<close>. Its two collaborators are arguments: \<open>ai\<close> is the awaited
  \<open>ai.models.generateContent\<close>, which returns a response or throws, and \<open>parse\<close> is
  \<open>JSON.parse\<close>, which returns the decoded value or throws. The result is the outcome
  of the promise: \<open>Inl\<close> what it rejects with, \<open>Inr\<close> the value it returns, which is
  the decoded value itself, cast to \<open>AnalysisResult\<close> without a check. The response
  schema sent with the request constrains the service, not this function.
\<close>

definition analysis_request :: "string \<Rightarrow> string \<Rightarrow> Request" where
  "analysis_request imageBase64 mime =
     (let imagePart = fileToGenerativePart imageBase64 mime
      in \<lparr>model = ''gemini-2.5-flash'', contents = [imagePart, text_part analysis_prompt]\<rparr>)"

definition analyzeFaceShape ::
  "(Request \<Rightarrow> thrown + AnalysisResponse) \<Rightarrow> (string \<Rightarrow> thrown + json)
     \<Rightarrow> string \<Rightarrow> string \<Rightarrow> thrown + json" where
  "analyzeFaceShape ai parse imageBase64 mime =
     (case ai (analysis_request imageBase64 mime) of
           Inl e \<Rightarrow> Inl (analysis_catch e)
         | Inr response \<Rightarrow>
             (case resp_text response of
                None \<Rightarrow> Inl (analysis_catch (JsError empty_response_message))
              | Some jsonString \<Rightarrow>
                  if jsonString = [] \<or> trim jsonString = []
                       \<or> toLowerCase (trim jsonString) = ''null''
                  then Inl (analysis_catch (JsError empty_response_message))
                  else (case parse jsonString of
                          Inl e \<Rightarrow> Inl (analysis_catch e)
                        | Inr result \<Rightarrow>
                            if is_invalid_structure result
                            then Inl (analysis_catch (JsError malformed_response_message))
                            else Inr result)))"

section \<open>Generation client: \<open>generateHairstyleImage\<close>\<close>

text \<open>
  \<open>HaircutPreference\<close> as \<open>types.ts\<close> declares it, and the string each value is at run
  time. The functions below take the preference as the string they receive: the type is
  erased, and the selection list of the user interface offers a value outside it.
\<close>

datatype HaircutPreference = Rapikan | Sedang | Pendek


text \<open>The table of cut-severity definitions in \<open>generateHairstyleImage\<close>.\<close>

definition preferenceDefinitions :: "(string \<times> string) list" where
  "preferenceDefinitions =
     [(''Sedang'',
       ''Potongan sedang yang terlihat. Kurangi panjang rambut secara signifikan, tetapi jangan membuatnya menjadi potongan yang sangat pendek. Perubahannya harus jelas dan nyata.''),
      (''Pendek'',
       ''Transformasi besar menjadi potongan pendek. Ubah gaya rambut menjadi versi yang jauh lebih pendek dari aslinya (misalnya, dari panjang menjadi bob, atau dari sebahu menjadi pixie).''),
      (''Super Pendek'',
       ''Transformasi ekstrem menjadi potongan yang sangat pendek dan berani. Ini adalah opsi terpendek. Pikirkan potongan pixie, undercut, atau bob yang sangat pendek, terlepas dari panjang aslinya. Perubahannya harus sangat dramatis.'')]"

text \<open>
  \<open>preferenceDefinitions[haircutPreference]\<close> reads a property of an object literal:
  one of its own three entries, else a property every object inherits from
  \<open>Object.prototype\<close>, else \<open>undefined\<close>.
\<close>

datatype property = OwnEntry string | InheritedProperty string | UndefinedProperty

definition object_prototype_keys :: "string list" where
  "object_prototype_keys =
     [''constructor'', ''toString'', ''toLocaleString'', ''valueOf'', ''hasOwnProperty'',
      ''isPrototypeOf'', ''propertyIsEnumerable'', ''__proto__'', ''__defineGetter__'',
      ''__defineSetter__'', ''__lookupGetter__'', ''__lookupSetter__'']"

definition lookup_definition :: "string \<Rightarrow> property" where
  "lookup_definition haircutPreference =
     (case map_of preferenceDefinitions haircutPreference of
        Some d \<Rightarrow> OwnEntry d
      | None \<Rightarrow>
          if haircutPreference \<in> set object_prototype_keys
          then InheritedProperty haircutPreference
          else UndefinedProperty)"

text \<open>
  A property placed in a template literal. An inherited property is a function, which
  prints as its source text (V8's wording), or the prototype object itself.
\<close>

fun property_text :: "property \<Rightarrow> string" where
  "property_text (OwnEntry d) = d"
| "property_text (InheritedProperty k) =
     (if k = ''__proto__'' then ''[object Object]''
      else if k = ''constructor'' then ''function Object() { [native code] }''
      else ''function '' @ k @ ''() { [native code] }'')"
| "property_text UndefinedProperty = ''undefined''"

text \<open>The two lines of the prompt that carry the preference and its definition.\<close>

definition preference_line :: "string \<Rightarrow> string" where
  "preference_line haircutPreference = ''- **Tingkat Potongan:** '' @ quoted haircutPreference"

definition definition_line :: "string \<Rightarrow> string" where
  "definition_line haircutPreference =
     ''- **Definisi:** '' @ quoted (property_text (lookup_definition haircutPreference))"

definition generation_prompt :: "string \<Rightarrow> string \<Rightarrow> string" where
  "generation_prompt hairstyleName haircutPreference = join_lines
     [''Anda adalah editor foto ahli dengan satu tugas spesifik: memodifikasi rambut seseorang dalam foto agar lebih pendek, sesuai dengan tingkat potongan yang diminta.'',
      [],
      ''**PERINTAH UTAMA (TIDAK BISA DITAWAR):**'',
      ''Anda HARUS mengubah rambut di foto agar secara visual cocok dengan deskripsi tingkat potongan ini:'',
      preference_line haircutPreference,
      definition_line haircutPreference,
      ''Ini adalah tujuan utama Anda. Panjang rambut di hasil akhir WAJIB sesuai dengan definisi ini.'',
      [],
      ''**INSPIRASI GAYA (SEKUNDER):**'',
      ''Setelah Anda memastikan panjangnya benar, gunakan nama gaya rambut berikut sebagai INSPIRASI untuk tekstur dan bentuk potongan:'',
      ''- **Inspirasi Gaya:** '' @ quoted hairstyleName,
      [],
      ''**CONTOH LOGIKA & ATURAN TEGAS:**'',
      ''- JIKA Tingkat Potongan adalah '' @ quoted ''Pendek'' @ '' DAN Inspirasi adalah '' @ quoted ''Gelombang Pantai Panjang'' @ '', maka hasil Anda HARUS berupa gaya rambut PENDEK (seperti bob atau pixie) yang memiliki tekstur bergelombang. JANGAN membuat rambut panjang.'',
      ''- JIKA Tingkat Potongan adalah '' @ quoted ''Sedang'' @ '' DAN Inspirasi adalah '' @ quoted ''Potongan Pixie'' @ '', dan rambut asli sudah pendek, maka Anda harus memotongnya sedikit lebih pendek lagi sesuai definisi '' @ quoted ''Sedang'' @ ''. JANGAN memanjangkannya.'',
      ''- Prioritaskan selalu Tingkat Potongan di atas Inspirasi Gaya.'',
      [],
      ''**LARANGAN:**'',
      ''- JANGAN mengubah apa pun selain rambut (wajah, ekspresi, pakaian, latar belakang, pencahayaan harus identik).'',
      ''- JANGAN mengabaikan '' @ quoted ''Tingkat Potongan'' @ ''. Ini adalah kegagalan tugas.'',
      ''- JANGAN membuat hasil yang terlihat seperti gambar AI; harus fotorealistis.'',
      [],
      ''Terapkan perubahan ini sekarang pada gambar yang diberikan.'']"

record GenerationResult =
  imageUrl :: string
  result_text :: string

definition blocked_message :: "string \<Rightarrow> string" where
  "blocked_message reason =
     ''Gagal membuat gambar karena permintaan diblokir: '' @ reason
       @ ''. Coba gaya atau foto lain.''"

definition no_image_message :: string where
  "no_image_message =
     ''AI tidak dapat menghasilkan gambar untuk gaya rambut ini. Silakan coba yang lain.''"

definition generation_failed_message :: string where
  "generation_failed_message =
     ''Gagal menghasilkan gaya rambut baru. Silakan coba lagi atau pilih gaya yang berbeda.''"

definition default_text :: string where
  "default_text = ''Ini dia tampilan baru Anda!''"

text \<open>
  The messages of the two \<open>TypeError\<close>s the engine raises when \<open>content\<close> or \<open>parts\<close>
  is absent, in V8's wording. Nothing below depends on the wording.
\<close>

definition content_undefined_message :: string where
  "content_undefined_message = ''Cannot read properties of undefined (reading 'parts')''"

definition parts_not_iterable_message :: string where
  "parts_not_iterable_message = ''response.candidates[0].content.parts is not iterable''"

text \<open>The \<open>catch\<close> block of \<open>generateHairstyleImage\<close>: an \<open>Error\<close> is thrown again.\<close>

fun generation_catch :: "thrown \<Rightarrow> thrown" where
  "generation_catch (JsError m) = JsError m"
| "generation_catch NonError = JsError generation_failed_message"

text \<open>\<open>response.promptFeedback?.blockReason\<close>, when it is truthy.\<close>

definition block_reason :: "GenerateContentResponse \<Rightarrow> string option" where
  "block_reason response =
     (case promptFeedback response of
        None \<Rightarrow> None
      | Some feedback \<Rightarrow>
          (case blockReason feedback of
             None \<Rightarrow> None
           | Some reason \<Rightarrow> if reason = [] then None else Some reason))"

definition data_url :: "Blob \<Rightarrow> string" where
  "data_url b = ''data:'' @ template (mimeType b) @ '';base64,'' @ template (data b)"

text \<open>
  The loop over the parts, from the values \<open>generatedImageUrl\<close> and \<open>generatedText\<close>
  have when a part is reached to the values they have after the last part.
\<close>

fun scan_parts :: "Part list \<Rightarrow> string \<Rightarrow> string \<Rightarrow> string \<times> string" where
  "scan_parts [] generatedImageUrl generatedText = (generatedImageUrl, generatedText)"
| "scan_parts (part # rest) generatedImageUrl generatedText =
     (case inlineData part of
        Some blob \<Rightarrow> scan_parts rest (data_url blob) generatedText
      | None \<Rightarrow>
          (case part_text part of
             None \<Rightarrow> scan_parts rest generatedImageUrl generatedText
           | Some t \<Rightarrow>
               if t = [] then scan_parts rest generatedImageUrl generatedText
               else scan_parts rest generatedImageUrl t))"

text \<open>
  The \<open>if\<close> around the loop: without a first candidate the two variables keep their
  initial values; with one, its parts are scanned, or reading them throws.
\<close>

definition scan_response :: "GenerateContentResponse \<Rightarrow> thrown + string \<times> string" where
  "scan_response response =
     (case candidates response of
        None \<Rightarrow> Inr ([], default_text)
      | Some [] \<Rightarrow> Inr ([], default_text)
      | Some (first # others) \<Rightarrow>
          (case content first of
             None \<Rightarrow> Inl (JsError content_undefined_message)
           | Some c \<Rightarrow>
               (case parts c of
                  None \<Rightarrow> Inl (JsError parts_not_iterable_message)
                | Some ps \<Rightarrow> Inr (scan_parts ps [] default_text))))"

text \<open>
  What \<open>generateHairstyleImage\<close> sends. The argument \<open>originalHairLength\<close> is not
  part of it: this copy of the function does not read it.
\<close>

definition generation_request :: "string \<Rightarrow> string \<Rightarrow> string \<Rightarrow> string \<Rightarrow> Request" where
  "generation_request imageBase64 mime hairstyleName haircutPreference =
     (let imagePart = fileToGenerativePart imageBase64 mime;
          prompt = generation_prompt hairstyleName haircutPreference
      in \<lparr>model = ''gemini-2.5-flash-image-preview'',
          contents = [imagePart, text_part prompt]\<rparr>)"

text \<open>
  \<open>generateHairstyleImage\<close>, with the awaited \<open>ai.models.generateContent\<close> as the
  argument \<open>ai\<close>. The result is the outcome of the promise.
\<close>

definition generateHairstyleImage ::
  "(Request \<Rightarrow> thrown + GenerateContentResponse)
     \<Rightarrow> string \<Rightarrow> string \<Rightarrow> string \<Rightarrow> string \<Rightarrow> string \<Rightarrow> thrown + GenerationResult" where
  "generateHairstyleImage ai imageBase64 mime hairstyleName originalHairLength haircutPreference =
     (case ai (generation_request imageBase64 mime hairstyleName haircutPreference) of
           Inl e \<Rightarrow> Inl (generation_catch e)
         | Inr response \<Rightarrow>
             (case block_reason response of
                Some reason \<Rightarrow> Inl (generation_catch (JsError (blocked_message reason)))
              | None \<Rightarrow>
                  (case scan_response response of
                     Inl e \<Rightarrow> Inl (generation_catch e)
                   | Inr (generatedImageUrl, generatedText) \<Rightarrow>
                       if generatedImageUrl = []
                       then Inl (generation_catch (JsError no_image_message))
                       else Inr \<lparr>imageUrl = generatedImageUrl,
                                 result_text = generatedText\<rparr>)))"

section \<open>Orchestrator: the \<open>App\<close> component\<close>

datatype AppState =
  INITIAL | IMAGE_UPLOADED | ANALYZING | ANALYZED | GENERATING | COMPLETE | ERROR

record HairstyleSuggestion =
  name :: string
  description :: string

record AnalysisResult =
  faceShape :: string
  originalHairLength :: string
  hairstyles :: "HairstyleSuggestion list"

record OriginalImage =
  url :: string
  base64 :: string
  image_mimeType :: string


text \<open>One entry of \<open>GeneratedImageState\<close>, which is keyed by hairstyle name.\<close>

record GeneratedImage =
  generated_url :: "string option"
  generated_error :: "string option"
  loading :: bool

text \<open>
  A call of \<open>generateHairstyleImage\<close> as \<open>handlePreferenceSelect\<close> issues it: its five
  arguments, and the number of the invocation of the handler that issued it. The number
  is bookkeeping of the model; the code keeps none.
\<close>

record GenerationCall =
  call_run :: nat
  call_imageBase64 :: string
  call_mimeType :: string
  call_hairstyleName :: string
  call_originalHairLength :: string
  call_haircutPreference :: string

text \<open>
  The state of the component (the six \<open>useState\<close> cells the handlers write) and, after
  it, what the JavaScript runtime holds for the asynchronous handlers: every generation
  call issued so far, the calls still in flight, the invocations of
  \<open>handlePreferenceSelect\<close> that have run to their last statement, the number of the
  next invocation, and how many analyses and file reads are in flight. The camera dialog
  and the file input element are left out. A handler reads the state as it is when the
  handler starts: the component is rendered again before the next click is handled, so
  the values its closure holds are the current ones.
\<close>

record App =
  appState :: AppState
  originalImage :: "OriginalImage option"
  analysisResult :: "AnalysisResult option"
  haircutPreference :: "string option"
  generatedImages :: "string \<rightharpoonup> GeneratedImage"
  error :: "string option"
  issued :: "GenerationCall list"
  pending :: "GenerationCall list"
  completed :: "nat list"
  nextRun :: nat
  pendingAnalyses :: nat
  pendingFiles :: nat

definition initial_app :: App where
  "initial_app =
     \<lparr>appState = INITIAL, originalImage = None, analysisResult = None,
      haircutPreference = None, generatedImages = Map.empty, error = None,
      issued = [], pending = [], completed = [], nextRun = 0,
      pendingAnalyses = 0, pendingFiles = 0\<rparr>"

text \<open>\<open>err.message || fallback\<close> for a caught value.\<close>

fun message_or :: "thrown \<Rightarrow> string \<Rightarrow> string" where
  "message_or (JsError m) fallback = (if m = [] then fallback else m)"
| "message_or NonError fallback = fallback"

definition handleReset :: "App \<Rightarrow> App" where
  "handleReset s =
     s\<lparr>appState := INITIAL, originalImage := None, analysisResult := None,
       haircutPreference := None, generatedImages := Map.empty, error := None\<rparr>"

text \<open>
  \<open>processFile\<close> up to its \<open>await\<close>, and its continuation once \<open>toBase64\<close> has
  settled: with the image, or with \<open>None\<close> when the file could not be read.
\<close>

definition processFile :: "App \<Rightarrow> App" where
  "processFile s = (handleReset s)\<lparr>pendingFiles := Suc (pendingFiles s)\<rparr>"

definition processFile_settled :: "OriginalImage option \<Rightarrow> App \<Rightarrow> App" where
  "processFile_settled r s =
     (if pendingFiles s = 0 then s
      else case r of
             Some img \<Rightarrow>
               s\<lparr>originalImage := Some img, appState := IMAGE_UPLOADED,
                 pendingFiles := pendingFiles s - 1\<rparr>
           | None \<Rightarrow>
               s\<lparr>error := Some ''Tidak dapat memproses file gambar. Silakan coba lagi.'',
                 appState := ERROR, pendingFiles := pendingFiles s - 1\<rparr>)"

text \<open>
  \<open>handleAnalyzeClick\<close> up to its \<open>await\<close>, and its continuation once
  \<open>analyzeFaceShape\<close> has settled.
\<close>

definition handleAnalyzeClick :: "App \<Rightarrow> App" where
  "handleAnalyzeClick s =
     (case originalImage s of
        None \<Rightarrow> s
      | Some img \<Rightarrow>
          s\<lparr>appState := ANALYZING, error := None, haircutPreference := None,
            generatedImages := Map.empty, pendingAnalyses := Suc (pendingAnalyses s)\<rparr>)"

text \<open>
  The value \<open>analyzeFaceShape\<close> returned is taken at its declared type
  \<open>AnalysisResult\<close>, as the component does.
\<close>

definition handleAnalyzeClick_settled :: "thrown + AnalysisResult \<Rightarrow> App \<Rightarrow> App" where
  "handleAnalyzeClick_settled r s =
     (if pendingAnalyses s = 0 then s
      else case r of
             Inr result \<Rightarrow>
               s\<lparr>analysisResult := Some result, appState := ANALYZED,
                 pendingAnalyses := pendingAnalyses s - 1\<rparr>
           | Inl err \<Rightarrow>
               s\<lparr>error := Some (message_or err
                    ''Terjadi kesalahan yang tidak diketahui saat analisis.''),
                 appState := ERROR, pendingAnalyses := pendingAnalyses s - 1\<rparr>)"

text \<open>
  The statement after \<open>await Promise.allSettled(generationPromises)\<close> of invocation
  \<open>r\<close>: it runs once none of the promises of that invocation is pending, and writes
  \<open>COMPLETE\<close>. Every promise of the list ends in a \<open>catch\<close> handler that returns a
  value, so the wait itself never throws.
\<close>

definition after_allSettled :: "nat \<Rightarrow> App \<Rightarrow> App" where
  "after_allSettled r s =
     (if list_all (\<lambda>c. call_run c \<noteq> r) (pending s)
      then s\<lparr>appState := COMPLETE, completed := completed s @ [r]\<rparr>
      else s)"

definition initialImageStates :: "HairstyleSuggestion list \<Rightarrow> (string \<rightharpoonup> GeneratedImage)" where
  "initialImageStates styles =
     fold (\<lambda>style m. m(name style \<mapsto>
             \<lparr>generated_url = None, generated_error = None, loading = True\<rparr>))
       styles Map.empty"

definition generation_call ::
  "nat \<Rightarrow> OriginalImage \<Rightarrow> AnalysisResult \<Rightarrow> string \<Rightarrow> HairstyleSuggestion \<Rightarrow> GenerationCall" where
  "generation_call r img analysis preference style =
     \<lparr>call_run = r, call_imageBase64 = base64 img, call_mimeType = image_mimeType img,
      call_hairstyleName = name style,
      call_originalHairLength = originalHairLength analysis,
      call_haircutPreference = preference\<rparr>"

definition handlePreferenceSelect :: "string \<Rightarrow> App \<Rightarrow> App" where
  "handlePreferenceSelect preference s =
     (case originalImage s of
        None \<Rightarrow> s
      | Some img \<Rightarrow>
          (case analysisResult s of
             None \<Rightarrow> s
           | Some analysis \<Rightarrow>
               if appState s = GENERATING then s
               else
                 let generationPromises =
                       map (generation_call (nextRun s) img analysis preference)
                         (hairstyles analysis)
                 in after_allSettled (nextRun s)
                      (s\<lparr>haircutPreference := Some preference, appState := GENERATING,
                         generatedImages := initialImageStates (hairstyles analysis),
                         issued := issued s @ generationPromises,
                         pending := pending s @ generationPromises,
                         nextRun := Suc (nextRun s)\<rparr>)))"

text \<open>
  The \<open>then\<close> and \<open>catch\<close> handlers of one generation promise: the entry written
  under the call's hairstyle name when the call settles.
\<close>

fun settled_entry :: "thrown + GenerationResult \<Rightarrow> GeneratedImage" where
  "settled_entry (Inr result) =
     \<lparr>generated_url = Some (imageUrl result), generated_error = None, loading = False\<rparr>"
| "settled_entry (Inl err) =
     \<lparr>generated_url = None, generated_error = Some (message_or err ''Gagal membuat gambar.''),
      loading = False\<rparr>"

text \<open>
  The in-flight call at position \<open>i\<close> settles with \<open>outcome\<close>: its handler updates the
  mapping that is current at that moment (\<open>setGeneratedImages(prev => ...)\<close>), and the
  invocation that issued the call goes on after its wait if this was its last call.
\<close>

definition generation_settled :: "nat \<Rightarrow> thrown + GenerationResult \<Rightarrow> App \<Rightarrow> App" where
  "generation_settled i outcome s =
     (if i < length (pending s)
      then let c = pending s ! i
           in after_allSettled (call_run c)
                (s\<lparr>generatedImages :=
                     (generatedImages s)(call_hairstyleName c \<mapsto> settled_entry outcome),
                   pending := take i (pending s) @ drop (Suc i) (pending s)\<rparr>)
      else s)"

text \<open>What can happen to the component, and a run of such events from a state.\<close>

datatype event =
    Reset
  | FileChosen
  | FileRead "OriginalImage option"
  | AnalyzeClick
  | AnalysisSettled "thrown + AnalysisResult"
  | PreferenceSelect string
  | GenerationSettled nat "thrown + GenerationResult"

fun step :: "event \<Rightarrow> App \<Rightarrow> App" where
  "step Reset s = handleReset s"
| "step FileChosen s = processFile s"
| "step (FileRead r) s = processFile_settled r s"
| "step AnalyzeClick s = handleAnalyzeClick s"
| "step (AnalysisSettled r) s = handleAnalyzeClick_settled r s"
| "step (PreferenceSelect preference) s = handlePreferenceSelect preference s"
| "step (GenerationSettled i outcome) s = generation_settled i outcome s"

definition run_events :: "event list \<Rightarrow> App \<Rightarrow> App" where
  "run_events evs s = fold step evs s"

section \<open>Notions used to state the properties\<close>

text \<open>The token \<open>null\<close> in any letter case.\<close>

definition null_token :: "string \<Rightarrow> bool" where
  "null_token t =
     (case t of
        [a, b, c, d] \<Rightarrow>
          a \<in> {CHR ''n'', CHR ''N''} \<and> b \<in> {CHR ''u'', CHR ''U''}
            \<and> c \<in> {CHR ''l'', CHR ''L''} \<and> d \<in> {CHR ''l'', CHR ''L''}
      | _ \<Rightarrow> False)"

text \<open>The inline image payloads among a list of parts, in order.\<close>

fun inline_images :: "Part list \<Rightarrow> Blob list" where
  "inline_images [] = []"
| "inline_images (p # ps) =
     (case inlineData p of None \<Rightarrow> inline_images ps | Some b \<Rightarrow> b # inline_images ps)"

text \<open>A run of events in which generation calls settle and nothing else happens.\<close>

definition settles :: "(nat \<times> (thrown + GenerationResult)) list \<Rightarrow> event list" where
  "settles outs = map (\<lambda>(i, outcome). GenerationSettled i outcome) outs"




section \<open>Sample inputs\<close>

text \<open>A service that answers every analysis request with the text \<open>t\<close>.\<close>

definition text_service :: "string \<Rightarrow> Request \<Rightarrow> thrown + AnalysisResponse" where
  "text_service t request = Inr \<lparr>resp_text = Some t\<rparr>"

definition failing_service :: "thrown \<Rightarrow> Request \<Rightarrow> thrown + AnalysisResponse" where
  "failing_service e request = Inl e"

definition empty_hairstyles_text :: string where
  \<open>empty_hairstyles_text =
     ''{"faceShape":"Oval","originalHairLength":"Long","hairstyles":[]}''\<close>

definition empty_hairstyles_value :: json where
  "empty_hairstyles_value =
     JObj [(''faceShape'', JStr ''Oval''), (''originalHairLength'', JStr ''Long''),
           (''hairstyles'', JArr [])]"

definition no_hairstyles_text :: string where
  \<open>no_hairstyles_text = ''{"faceShape":"Oval","originalHairLength":"Long"}''\<close>

definition no_hairstyles_value :: json where
  "no_hairstyles_value =
     JObj [(''faceShape'', JStr ''Oval''), (''originalHairLength'', JStr ''Long'')]"

text \<open>
  The message of the \<open>SyntaxError\<close> that \<open>JSON.parse\<close> throws on the text
  \<open>AI mengembalikan\<close>, in V8's wording, which quotes a short input in full.
\<close>

definition quoting_syntax_error :: string where
  \<open>quoting_syntax_error = ''Unexpected token 'A', "AI mengembalikan" is not valid JSON''\<close>

text \<open>\<open>JSON.parse\<close> on the texts used below; any other text is taken not to decode.\<close>

definition sample_parse :: "string \<Rightarrow> thrown + json" where
  "sample_parse t =
     (if t = empty_hairstyles_text then Inr empty_hairstyles_value
      else if t = no_hairstyles_text then Inr no_hairstyles_value
      else if t = ''AI mengembalikan'' then Inl (JsError quoting_syntax_error)
      else Inl (JsError ''Unexpected end of JSON input''))"

text \<open>A service that answers every generation request with \<open>response\<close>.\<close>

definition responding_service ::
  "GenerateContentResponse \<Rightarrow> Request \<Rightarrow> thrown + GenerateContentResponse" where
  "responding_service response request = Inr response"

definition image_part :: "string \<Rightarrow> Part" where
  "image_part payload =
     \<lparr>inlineData = Some \<lparr>data = Some payload, mimeType = Some ''image/png''\<rparr>,
      part_text = None\<rparr>"

definition candidate_of :: "Part list \<Rightarrow> Candidate" where
  "candidate_of ps = \<lparr>content = Some \<lparr>parts = Some ps\<rparr>\<rparr>"

definition blocked_response :: GenerateContentResponse where
  "blocked_response =
     \<lparr>promptFeedback = Some \<lparr>blockReason = Some ''SAFETY''\<rparr>, candidates = None\<rparr>"

definition two_images_response :: GenerateContentResponse where
  "two_images_response =
     \<lparr>promptFeedback = None,
      candidates = Some [candidate_of [image_part ''AAAA'', text_part ''Selesai'',
                                       image_part ''BBBB'', text_part ''Akhir''],
                         candidate_of [image_part ''CCCC'', text_part ''Lain'']]\<rparr>"

definition no_content_response :: GenerateContentResponse where
  "no_content_response = \<lparr>promptFeedback = None, candidates = Some [\<lparr>content = None\<rparr>]\<rparr>"

text \<open>The scenario of the specification: one image, three suggestions.\<close>

definition sample_image :: OriginalImage where
  "sample_image = \<lparr>url = ''blob:selfie'', base64 = ''AAAA'', image_mimeType = ''image/png''\<rparr>"

definition sample_analysis :: AnalysisResult where
  "sample_analysis =
     \<lparr>faceShape = ''Oval'', originalHairLength = ''Long'',
      hairstyles = [\<lparr>name = ''Bob'', description = ''d1''\<rparr>,
                    \<lparr>name = ''Pixie'', description = ''d2''\<rparr>,
                    \<lparr>name = ''Layers'', description = ''d3''\<rparr>]\<rparr>"

definition analyzed_trace :: "event list" where
  "analyzed_trace =
     [FileChosen, FileRead (Some sample_image), AnalyzeClick,
      AnalysisSettled (Inr sample_analysis)]"

definition sample_result :: GenerationResult where
  "sample_result = \<lparr>imageUrl = ''data:image/png;base64,BBBB'', result_text = default_text\<rparr>"

definition sample_failure :: thrown where
  "sample_failure = JsError (blocked_message ''SAFETY'')"

text \<open>
  The component after the image was read and analysed; the outcomes with which the three
  calls of one selection settle (the first and the last succeed, the one between them is
  blocked); the component after a selection and a reset that leaves its three calls in
  flight; and the component after a new image, a new analysis and a new selection on top
  of that.
\<close>

definition analyzed_app :: App where
  "analyzed_app = run_events analyzed_trace initial_app"


definition abandoned_app :: App where
  "abandoned_app = run_events [PreferenceSelect ''Sedang'', Reset] analyzed_app"

definition newer_run_app :: App where
  "newer_run_app = run_events (analyzed_trace @ [PreferenceSelect ''Pendek'']) abandoned_app"

section \<open>Properties of the analysis client\<close>

lemma dropWhile_all: "\<forall>c \<in> set s. P c \<Longrightarrow> dropWhile P s = []"
  by (induction s) auto

lemma dropWhile_skip: "\<forall>c \<in> set xs. P c \<Longrightarrow> dropWhile P (xs @ ys) = dropWhile P ys"
  by (induction xs) auto

lemma dropWhile_none: "xs \<noteq> [] \<Longrightarrow> \<not> P (hd xs) \<Longrightarrow> dropWhile P xs = xs"
  by (cases xs) auto

lemma trim_whitespace_only: "\<forall>c \<in> set s. is_ws c \<Longrightarrow> trim s = []"
  by (simp add: trim_def dropWhile_all del: dropWhile_eq_Nil_conv)

lemma trim_nonempty: "trim s \<noteq> [] \<Longrightarrow> s \<noteq> []"
  by (auto simp: trim_def)

lemma trim_padded:
  assumes l: "\<forall>c \<in> set l. is_ws c" and r: "\<forall>c \<in> set r. is_ws c"
    and t: "t \<noteq> []" "\<not> is_ws (hd t)" "\<not> is_ws (last t)"
  shows "trim (l @ t @ r) = t"
proof -
  have "dropWhile is_ws (l @ t @ r) = dropWhile is_ws (t @ r)"
    using l by (rule dropWhile_skip)
  also have "\<dots> = t @ r"
    using t by (intro dropWhile_none) auto
  finally have a: "dropWhile is_ws (l @ t @ r) = t @ r" .
  have "dropWhile is_ws (rev r @ rev t) = dropWhile is_ws (rev t)"
    using r by (intro dropWhile_skip) simp
  also have "\<dots> = rev t"
    using t by (intro dropWhile_none) (auto simp: hd_rev)
  finally show ?thesis by (simp add: trim_def a)
qed

lemma null_token_cases:
  assumes "null_token t"
  obtains a b c d where "t = [a, b, c, d]"
    "a \<in> {CHR ''n'', CHR ''N''}" "b \<in> {CHR ''u'', CHR ''U''}"
    "c \<in> {CHR ''l'', CHR ''L''}" "d \<in> {CHR ''l'', CHR ''L''}"
  using assms by (auto simp: null_token_def split: list.splits)

lemma lower_char_null:
  "lower_char CHR ''n'' = CHR ''n''" "lower_char CHR ''N'' = CHR ''n''"
  "lower_char CHR ''u'' = CHR ''u''" "lower_char CHR ''U'' = CHR ''u''"
  "lower_char CHR ''l'' = CHR ''l''" "lower_char CHR ''L'' = CHR ''l''"
  by code_simp+

lemma null_token_lower: "null_token t \<Longrightarrow> toLowerCase t = ''null''"
  by (erule null_token_cases) (auto simp: toLowerCase_def lower_char_null)

lemma null_token_ends: "null_token t \<Longrightarrow> t \<noteq> [] \<and> \<not> is_ws (hd t) \<and> \<not> is_ws (last t)"
  by (erule null_token_cases) (auto simp: is_ws_def)

text \<open>\<open>js_includes\<close> is the substring test.\<close>

lemma js_includes_iff: "js_includes s sub \<longleftrightarrow> (\<exists>p q. s = p @ sub @ q)"
proof (induction s)
  case Nil
  then show ?case by auto
next
  case (Cons c cs)
  show ?case
  proof
    assume "js_includes (c # cs) sub"
    then consider "take (length sub) (c # cs) = sub" | "js_includes cs sub" by auto
    then show "\<exists>p q. c # cs = p @ sub @ q"
    proof cases
      case 1
      then have "c # cs = [] @ sub @ drop (length sub) (c # cs)"
        by (metis append_Nil append_take_drop_id)
      then show ?thesis by blast
    next
      case 2
      then obtain p q where "cs = p @ sub @ q" using Cons.IH by blast
      then have "c # cs = (c # p) @ sub @ q" by simp
      then show ?thesis by blast
    qed
  next
    assume "\<exists>p q. c # cs = p @ sub @ q"
    then obtain p q where pq: "c # cs = p @ sub @ q" by blast
    show "js_includes (c # cs) sub"
    proof (cases p)
      case Nil
      then have "take (length sub) (c # cs) = sub" using pq by simp
      then show ?thesis by simp
    next
      case (Cons a p')
      then have "cs = p' @ sub @ q" using pq by simp
      then have "js_includes cs sub" using Cons.IH by blast
      then show ?thesis by simp
    qed
  qed
qed

lemma empty_message_kept:
  "analysis_catch (JsError empty_response_message) = JsError empty_response_message"
  by (simp add: empty_response_message_def)

lemma malformed_message_kept:
  "analysis_catch (JsError malformed_response_message) = JsError malformed_response_message"
  by (simp add: malformed_response_message_def)

lemma truthy_opt_iff: "truthy_opt x \<longleftrightarrow> (\<exists>v. x = Some v \<and> truthy v)"
  by (cases x) auto

text \<open>
  Claim C3. When the text of the response is absent, empty, made of white space only, or
  the token \<open>null\<close> in any letter case (also with white space around it),
  \<open>analyzeFaceShape\<close> rejects with the empty-response error and returns nothing.
\<close>

theorem empty_response_rejected:
  assumes "ai (analysis_request imageBase64 mime) = Inr response"
    and "resp_text response = None
       \<or> (\<exists>l t r. resp_text response = Some (l @ t @ r)
             \<and> (\<forall>c \<in> set l. is_ws c) \<and> (\<forall>c \<in> set r. is_ws c)
             \<and> (t = [] \<or> null_token t))"
  shows "analyzeFaceShape ai parse imageBase64 mime = Inl (JsError empty_response_message)"
proof (cases "resp_text response")
  case None
  then show ?thesis
    using assms(1) by (simp add: analyzeFaceShape_def empty_message_kept del: analysis_catch.simps)
next
  case (Some s)
  with assms(2) obtain l t r where s: "s = l @ t @ r" and l: "\<forall>c \<in> set l. is_ws c"
    and r: "\<forall>c \<in> set r. is_ws c" and t: "t = [] \<or> null_token t"
    by auto
  from t have "trim s = [] \<or> toLowerCase (trim s) = ''null''"
  proof
    assume "t = []"
    then have "\<forall>c \<in> set s. is_ws c" using l r s by auto
    then show ?thesis by (simp only: trim_whitespace_only simp_thms)
  next
    assume n: "null_token t"
    then have "trim s = t"
      unfolding s using l r null_token_ends by (intro trim_padded) auto
    then show ?thesis using n by (simp add: null_token_lower)
  qed
  then show ?thesis
    using assms(1) Some
    by (auto simp add: analyzeFaceShape_def empty_message_kept simp del: analysis_catch.simps)
qed

theorem empty_response_rejected_witness:
  "null_token ''NuLl''
   \<and> analyzeFaceShape (text_service ''  NuLl '') sample_parse ''AAAA'' ''image/png''
       = Inl (JsError empty_response_message)"
proof -
  have a: "text_service ''  NuLl '' (analysis_request ''AAAA'' ''image/png'')
             = Inr \<lparr>resp_text = Some ''  NuLl ''\<rparr>"
    by (simp add: text_service_def)
  have "''  NuLl '' = ''  '' @ ''NuLl'' @ '' ''" by simp
  moreover have "\<forall>c \<in> set ''  ''. is_ws c" by (simp add: is_ws_def)
  moreover have "\<forall>c \<in> set '' ''. is_ws c" by (simp add: is_ws_def)
  moreover have n: "null_token ''NuLl''" by (simp add: null_token_def)
  ultimately have b: "resp_text \<lparr>resp_text = Some ''  NuLl ''\<rparr> = None
       \<or> (\<exists>l t r. resp_text \<lparr>resp_text = Some ''  NuLl ''\<rparr> = Some (l @ t @ r)
             \<and> (\<forall>c \<in> set l. is_ws c) \<and> (\<forall>c \<in> set r. is_ws c)
             \<and> (t = [] \<or> null_token t))"
    by (metis AnalysisResponse.select_convs(1))
  show ?thesis
    using empty_response_rejected [where ai = "text_service ''  NuLl ''" and parse = sample_parse
        and response = "\<lparr>resp_text = Some ''  NuLl ''\<rparr>", OF a b] n
    by simp
qed

text \<open>
  Claim C4. When the text of the response passes the empty-response test and decodes to a
  value without the field \<open>faceShape\<close> or without the field \<open>hairstyles\<close>,
  \<open>analyzeFaceShape\<close> rejects with the unexpected-format error.
\<close>

theorem malformed_response_rejected:
  assumes "ai (analysis_request imageBase64 mime) = Inr response"
    and "resp_text response = Some s"
    and "trim s \<noteq> []" and "toLowerCase (trim s) \<noteq> ''null''"
    and "parse s = Inr v"
    and "get_prop v ''faceShape'' = None \<or> get_prop v ''hairstyles'' = None"
  shows "analyzeFaceShape ai parse imageBase64 mime = Inl (JsError malformed_response_message)"
proof -
  have "s \<noteq> []" using assms(3) by (rule trim_nonempty)
  moreover have "is_invalid_structure v"
    using assms(6) by (auto simp: is_invalid_structure_def)
  ultimately show ?thesis
    using assms(1-5)
    by (simp add: analyzeFaceShape_def malformed_message_kept del: analysis_catch.simps)
qed

lemma no_hairstyles_text_passes:
  "trim no_hairstyles_text \<noteq> [] \<and> toLowerCase (trim no_hairstyles_text) \<noteq> ''null''"
  by (simp add: no_hairstyles_text_def trim_def is_ws_def toLowerCase_def)

theorem malformed_response_rejected_witness:
  "analyzeFaceShape (text_service no_hairstyles_text) sample_parse ''AAAA'' ''image/png''
     = Inl (JsError malformed_response_message)"
proof -
  have a: "text_service no_hairstyles_text (analysis_request ''AAAA'' ''image/png'')
             = Inr \<lparr>resp_text = Some no_hairstyles_text\<rparr>"
    by (simp add: text_service_def)
  have b: "resp_text \<lparr>resp_text = Some no_hairstyles_text\<rparr> = Some no_hairstyles_text"
    by simp
  have c: "sample_parse no_hairstyles_text = Inr no_hairstyles_value"
    by (simp add: sample_parse_def no_hairstyles_text_def empty_hairstyles_text_def)
  have d: "get_prop no_hairstyles_value ''faceShape'' = None
             \<or> get_prop no_hairstyles_value ''hairstyles'' = None"
    by (simp add: no_hairstyles_value_def)
  show ?thesis
    using malformed_response_rejected [where ai = "text_service no_hairstyles_text"
        and parse = sample_parse and v = no_hairstyles_value, OF a b _ _ c d]
      no_hairstyles_text_passes by simp
qed

text \<open>
  Claim C5, as stated, fails: a failure is told apart by the text of its message, not by
  where it comes from. A decoding error whose message quotes the text
  \<open>AI mengembalikan\<close>, and a rejection of the request with a message that contains these
  words, both leave \<open>analyzeFaceShape\<close> unchanged instead of as the generic error.
\<close>

theorem generic_wrapping_counterexample:
  "analyzeFaceShape (text_service ''AI mengembalikan'') sample_parse ''AAAA'' ''image/png''
     = Inl (JsError quoting_syntax_error)
   \<and> analyzeFaceShape (failing_service (JsError ''AI mengembalikan galat 503'')) sample_parse
         ''AAAA'' ''image/png''
     = Inl (JsError ''AI mengembalikan galat 503'')
   \<and> quoting_syntax_error \<noteq> analysis_failed_message
   \<and> quoting_syntax_error \<noteq> empty_response_message
   \<and> quoting_syntax_error \<noteq> malformed_response_message"
  by (simp add: analyzeFaceShape_def text_service_def failing_service_def sample_parse_def
        trim_def is_ws_def toLowerCase_def empty_hairstyles_text_def no_hairstyles_text_def
        quoting_syntax_error_def analysis_failed_message_def empty_response_message_def
        malformed_response_message_def)

text \<open>
  Claim C5, amended. A failure of the request or of the decoding leaves
  \<open>analyzeFaceShape\<close> as the generic analysis error when the value thrown is not an
  \<open>Error\<close> or its message does not contain \<open>AI mengembalikan\<close>; an \<open>Error\<close> whose
  message contains these words is thrown again unchanged, and the messages of the two
  validation errors contain them.
\<close>

theorem failure_wrapping:
  assumes "ai (analysis_request imageBase64 mime) = Inl e
     \<or> (\<exists>response s. ai (analysis_request imageBase64 mime) = Inr response
            \<and> resp_text response = Some s \<and> trim s \<noteq> []
            \<and> toLowerCase (trim s) \<noteq> ''null'' \<and> parse s = Inl e)"
  shows "analyzeFaceShape ai parse imageBase64 mime =
           (case e of
              JsError m \<Rightarrow>
                if js_includes m ''AI mengembalikan'' then Inl (JsError m)
                else Inl (JsError analysis_failed_message)
            | NonError \<Rightarrow> Inl (JsError analysis_failed_message))
         \<and> js_includes empty_response_message ''AI mengembalikan''
         \<and> js_includes malformed_response_message ''AI mengembalikan''"
proof -
  have "analyzeFaceShape ai parse imageBase64 mime = Inl (analysis_catch e)"
    using assms
  proof
    assume "ai (analysis_request imageBase64 mime) = Inl e"
    then show ?thesis by (simp add: analyzeFaceShape_def)
  next
    assume "\<exists>response s. ai (analysis_request imageBase64 mime) = Inr response
            \<and> resp_text response = Some s \<and> trim s \<noteq> []
            \<and> toLowerCase (trim s) \<noteq> ''null'' \<and> parse s = Inl e"
    then obtain response s where h: "ai (analysis_request imageBase64 mime) = Inr response"
      "resp_text response = Some s" "trim s \<noteq> []" "toLowerCase (trim s) \<noteq> ''null''"
      "parse s = Inl e" by blast
    have "s \<noteq> []" using h(3) by (rule trim_nonempty)
    then show ?thesis using h by (simp add: analyzeFaceShape_def)
  qed
  moreover have "js_includes empty_response_message ''AI mengembalikan''"
    by (simp add: empty_response_message_def)
  moreover have "js_includes malformed_response_message ''AI mengembalikan''"
    by (simp add: malformed_response_message_def)
  ultimately show ?thesis by (cases e) simp_all
qed

theorem failure_wrapping_witness:
  "failing_service (JsError ''fetch failed'') (analysis_request ''AAAA'' ''image/png'')
     = Inl (JsError ''fetch failed'')
   \<and> analyzeFaceShape (failing_service (JsError ''fetch failed'')) sample_parse
         ''AAAA'' ''image/png''
     = Inl (JsError analysis_failed_message)"
proof -
  have a: "failing_service (JsError ''fetch failed'') (analysis_request ''AAAA'' ''image/png'')
             = Inl (JsError ''fetch failed'')"
    by (simp add: failing_service_def)
  show ?thesis
    using failure_wrapping [where ai = "failing_service (JsError ''fetch failed'')"
        and parse = sample_parse and e = "JsError ''fetch failed''", OF disjI1, OF a] a
    by simp
qed

text \<open>
  Claim C6, as stated, fails: the only test on \<open>hairstyles\<close> is its truthiness, and an
  empty array is truthy. A response with no suggestion is returned as a success.
\<close>

theorem hairstyles_nonempty_counterexample:
  "analyzeFaceShape (text_service empty_hairstyles_text) sample_parse ''AAAA'' ''image/png''
     = Inr empty_hairstyles_value
   \<and> get_prop empty_hairstyles_value ''hairstyles'' = Some (JArr [])"
  by (simp add: analyzeFaceShape_def text_service_def sample_parse_def
        empty_hairstyles_text_def empty_hairstyles_value_def trim_def is_ws_def
        toLowerCase_def is_invalid_structure_def)

text \<open>
  Claim C6, amended. Every value \<open>analyzeFaceShape\<close> returns is an object whose
  fields \<open>faceShape\<close> and \<open>hairstyles\<close> are there and truthy; nothing more is known
  of \<open>hairstyles\<close>, which may be an empty sequence.
\<close>

theorem returned_structure:
  assumes "analyzeFaceShape ai parse imageBase64 mime = Inr v"
  shows "\<exists>fs f h. v = JObj fs \<and> map_of fs ''faceShape'' = Some f \<and> truthy f
            \<and> map_of fs ''hairstyles'' = Some h \<and> truthy h"
proof -
  from assms have "\<not> is_invalid_structure v"
    by (auto simp: analyzeFaceShape_def split: sum.splits option.splits if_splits)
  then show ?thesis
    by (cases v) (auto simp: is_invalid_structure_def truthy_opt_iff)
qed

theorem returned_structure_witness:
  "analyzeFaceShape (text_service empty_hairstyles_text) sample_parse ''AAAA'' ''image/png''
     = Inr empty_hairstyles_value
   \<and> (\<exists>fs f h. empty_hairstyles_value = JObj fs \<and> map_of fs ''faceShape'' = Some f \<and> truthy f
            \<and> map_of fs ''hairstyles'' = Some h \<and> truthy h)"
proof -
  have a: "analyzeFaceShape (text_service empty_hairstyles_text) sample_parse ''AAAA''
             ''image/png'' = Inr empty_hairstyles_value"
    by (simp add: analyzeFaceShape_def text_service_def sample_parse_def
        empty_hairstyles_text_def empty_hairstyles_value_def trim_def is_ws_def
        toLowerCase_def is_invalid_structure_def)
  show ?thesis using returned_structure [OF a] a by simp
qed

section \<open>Properties of the generation client\<close>

lemma generate_unfold:
  "ai (generation_request imageBase64 mime hairstyleName preference) = Inr response \<Longrightarrow>
   generateHairstyleImage ai imageBase64 mime hairstyleName hairLength preference =
     (case block_reason response of
        Some reason \<Rightarrow> Inl (JsError (blocked_message reason))
      | None \<Rightarrow>
          (case scan_response response of
             Inl e \<Rightarrow> Inl (generation_catch e)
           | Inr (generatedImageUrl, generatedText) \<Rightarrow>
               if generatedImageUrl = [] then Inl (JsError no_image_message)
               else Inr \<lparr>imageUrl = generatedImageUrl, result_text = generatedText\<rparr>))"
  by (auto simp: generateHairstyleImage_def split: option.splits sum.splits)

lemma scan_parts_url:
  "fst (scan_parts ps u t) =
     (if inline_images ps = [] then u else data_url (last (inline_images ps)))"
  by (induction ps u t rule: scan_parts.induct) (auto split: option.splits)

lemma data_url_nonempty: "data_url b \<noteq> []"
  by (simp add: data_url_def)

text \<open>
  With a first candidate whose parts can be read, a response that is not blocked gives
  the no-image error exactly when there is no inline image among these parts, and the last
  inline image otherwise; without a first candidate it gives the no-image error.
\<close>

lemma no_image_iff:
  assumes "ai (generation_request imageBase64 mime hairstyleName preference) = Inr response"
    and "block_reason response = None"
    and "candidates response = Some (first # others)"
    and "content first = Some c" and "parts c = Some ps"
  shows "generateHairstyleImage ai imageBase64 mime hairstyleName hairLength preference =
           (if inline_images ps = [] then Inl (JsError no_image_message)
            else Inr \<lparr>imageUrl = data_url (last (inline_images ps)),
                      result_text = snd (scan_parts ps [] default_text)\<rparr>)"
proof -
  obtain u t where sp: "scan_parts ps [] default_text = (u, t)" by fastforce
  then have "fst (scan_parts ps [] default_text) = u" by simp
  then have u: "u = (if inline_images ps = [] then [] else data_url (last (inline_images ps)))"
    by (simp add: scan_parts_url)
  show ?thesis using assms sp u
    by (simp add: generate_unfold scan_response_def data_url_nonempty)
qed

lemma no_image_without_candidates:
  assumes "ai (generation_request imageBase64 mime hairstyleName preference) = Inr response"
    and "block_reason response = None"
    and "candidates response = None \<or> candidates response = Some []"
  shows "generateHairstyleImage ai imageBase64 mime hairstyleName hairLength preference =
           Inl (JsError no_image_message)"
  using assms by (auto simp: generate_unfold scan_response_def)

text \<open>
  Claim C7. When the response carries a block reason in its prompt feedback,
  \<open>generateHairstyleImage\<close> rejects with the blocked-request error, whose message
  carries that reason, and returns no image.
\<close>

theorem blocked_request_rejected:
  assumes "ai (generation_request imageBase64 mime hairstyleName preference) = Inr response"
    and "promptFeedback response = Some feedback"
    and "blockReason feedback = Some reason"
    and "reason \<noteq> []"
  shows "generateHairstyleImage ai imageBase64 mime hairstyleName hairLength preference
           = Inl (JsError (''Gagal membuat gambar karena permintaan diblokir: '' @ reason
                    @ ''. Coba gaya atau foto lain.''))"
  using assms by (simp add: generate_unfold block_reason_def blocked_message_def)

theorem blocked_request_rejected_witness:
  "promptFeedback blocked_response = Some \<lparr>blockReason = Some ''SAFETY''\<rparr>
   \<and> generateHairstyleImage (responding_service blocked_response) ''AAAA'' ''image/png''
         ''Bob'' ''Long'' ''Pendek''
     = Inl (JsError
         ''Gagal membuat gambar karena permintaan diblokir: SAFETY. Coba gaya atau foto lain.'')"
proof -
  have a: "responding_service blocked_response
             (generation_request ''AAAA'' ''image/png'' ''Bob'' ''Pendek'') = Inr blocked_response"
    by (simp add: responding_service_def)
  have b: "promptFeedback blocked_response = Some \<lparr>blockReason = Some ''SAFETY''\<rparr>"
    by (simp add: blocked_response_def)
  have c: "blockReason \<lparr>blockReason = Some ''SAFETY''\<rparr> = Some ''SAFETY''" by simp
  have d: "''SAFETY'' \<noteq> []" by simp
  show ?thesis
    using blocked_request_rejected [where ai = "responding_service blocked_response"
        and hairLength = "''Long''", OF a b c d] b
    by simp
qed

text \<open>
  Claim C8 fails on a response that is not blocked and whose first candidate has no
  content: reading its parts throws, and the \<open>TypeError\<close> leaves the function in place
  of the no-image error.
\<close>

theorem candidate_without_content:
  "generateHairstyleImage (responding_service no_content_response) ''AAAA'' ''image/png''
       ''Bob'' ''Long'' ''Pendek''
     = Inl (JsError content_undefined_message)
   \<and> content_undefined_message \<noteq> no_image_message"
  by (simp add: generateHairstyleImage_def responding_service_def no_content_response_def
        block_reason_def scan_response_def content_undefined_message_def no_image_message_def)


lemma own_entry_line:
  "lookup_definition v = OwnEntry d \<Longrightarrow> definition_line v = ''- **Definisi:** '' @ quoted d"
  by (simp add: definition_line_def)



text \<open>The inline images of a list of parts, and the part that holds the last of them.\<close>

lemma inline_images_append: "inline_images (xs @ ys) = inline_images xs @ inline_images ys"
  by (induction xs) (auto split: option.splits)

lemma inline_images_none: "\<forall>q \<in> set ps. inlineData q = None \<Longrightarrow> inline_images ps = []"
  by (induction ps) auto

lemma last_inline_image:
  assumes "inlineData p = Some b" and "\<forall>q \<in> set after. inlineData q = None"
  shows "inline_images (before @ p # after) \<noteq> []
         \<and> last (inline_images (before @ p # after)) = b"
proof -
  have "inline_images (before @ p # after) = inline_images before @ [b]"
    using assms by (simp add: inline_images_append inline_images_none)
  then show ?thesis by simp
qed

lemma last_inline_image_exists:
  "inline_images ps \<noteq> [] \<Longrightarrow>
     \<exists>before p after b. ps = before @ p # after \<and> inlineData p = Some b
        \<and> (\<forall>q \<in> set after. inlineData q = None)"
proof (induction ps rule: rev_induct)
  case Nil
  then show ?case by simp
next
  case (snoc x xs)
  show ?case
  proof (cases "inlineData x")
    case (Some b)
    then have "xs @ [x] = xs @ x # [] \<and> inlineData x = Some b
        \<and> (\<forall>q \<in> set []. inlineData q = None)" by simp
    then show ?thesis by blast
  next
    case None
    then have "inline_images xs \<noteq> []"
      using snoc.prems by (simp add: inline_images_append)
    then obtain before p after b where h: "xs = before @ p # after" "inlineData p = Some b"
      "\<forall>q \<in> set after. inlineData q = None" using snoc.IH by blast
    then have "xs @ [x] = before @ p # (after @ [x]) \<and> inlineData p = Some b
        \<and> (\<forall>q \<in> set (after @ [x]). inlineData q = None)"
      using None by simp
    then show ?thesis by blast
  qed
qed

text \<open>
  Claim C10. Take a response whose list of candidates is not empty. When the response is
  not blocked and the parts of the first candidate hold a part with inline data after
  which no part has inline data, \<open>generateHairstyleImage\<close> returns, and the image it
  returns is the data URL of that part: the media type and the payload of the last inline
  image, whatever inline images come before it. It returns an image in no other case.
  The outcome is the same when the second and following candidates are taken away.
\<close>

theorem last_image_of_first_candidate:
  assumes call: "ai (generation_request imageBase64 mime hairstyleName preference) = Inr response"
    and cands: "candidates response = Some (first # others)"
  shows "(block_reason response = None \<and> content first = Some c
            \<and> parts c = Some (before @ p # after) \<and> inlineData p = Some b
            \<and> (\<forall>q \<in> set after. inlineData q = None)
          \<longrightarrow> (\<exists>result. generateHairstyleImage ai imageBase64 mime hairstyleName hairLength
                    preference = Inr result
                \<and> imageUrl result
                    = ''data:'' @ template (mimeType b) @ '';base64,'' @ template (data b)))
         \<and> (\<forall>result. generateHairstyleImage ai imageBase64 mime hairstyleName hairLength
                    preference = Inr result
              \<longrightarrow> block_reason response = None
                \<and> (\<exists>c' before' p' after' b'. content first = Some c'
                      \<and> parts c' = Some (before' @ p' # after') \<and> inlineData p' = Some b'
                      \<and> (\<forall>q \<in> set after'. inlineData q = None)
                      \<and> imageUrl result
                          = ''data:'' @ template (mimeType b') @ '';base64,''
                              @ template (data b')))
         \<and> generateHairstyleImage (responding_service (response\<lparr>candidates := Some [first]\<rparr>))
              imageBase64 mime hairstyleName hairLength preference
             = generateHairstyleImage ai imageBase64 mime hairstyleName hairLength preference"
proof (intro conjI impI allI)
  assume h: "block_reason response = None \<and> content first = Some c
            \<and> parts c = Some (before @ p # after) \<and> inlineData p = Some b
            \<and> (\<forall>q \<in> set after. inlineData q = None)"
  then have l: "inline_images (before @ p # after) \<noteq> []"
    "last (inline_images (before @ p # after)) = b"
    using last_inline_image [of p b after before] by simp_all
  have "generateHairstyleImage ai imageBase64 mime hairstyleName hairLength preference
          = Inr \<lparr>imageUrl = data_url b,
                 result_text = snd (scan_parts (before @ p # after) [] default_text)\<rparr>"
    using no_image_iff [where ai = ai and c = c and ps = "before @ p # after"
        and hairLength = hairLength, OF call _ cands] h l
    by simp
  then show "\<exists>result. generateHairstyleImage ai imageBase64 mime hairstyleName hairLength
                    preference = Inr result
                \<and> imageUrl result
                    = ''data:'' @ template (mimeType b) @ '';base64,'' @ template (data b)"
    by (simp add: data_url_def)
next
  fix result
  assume ret: "generateHairstyleImage ai imageBase64 mime hairstyleName hairLength preference
                 = Inr result"
  from ret call obtain u t where nb: "block_reason response = None"
    and sc: "scan_response response = Inr (u, t)" and u: "u \<noteq> []"
    and res: "result = \<lparr>imageUrl = u, result_text = t\<rparr>"
    by (auto simp: generate_unfold split: option.splits sum.splits if_splits)
  from sc cands obtain c' ps where c: "content first = Some c'" and ps: "parts c' = Some ps"
    and sp: "scan_parts ps [] default_text = (u, t)"
    by (auto simp: scan_response_def split: option.splits)
  have "fst (scan_parts ps [] default_text) = u" using sp by simp
  then have ne: "inline_images ps \<noteq> []" and url: "u = data_url (last (inline_images ps))"
    using u by (auto simp: scan_parts_url split: if_splits)
  from ne obtain before' p' after' b' where d: "ps = before' @ p' # after'"
    "inlineData p' = Some b'" "\<forall>q \<in> set after'. inlineData q = None"
    using last_inline_image_exists by blast
  then have "last (inline_images ps) = b'"
    using last_inline_image [of p' b' after' before'] by simp
  then have "imageUrl result
      = ''data:'' @ template (mimeType b') @ '';base64,'' @ template (data b')"
    using url res by (simp add: data_url_def)
  then show "block_reason response = None"
    and "\<exists>c' before' p' after' b'. content first = Some c'
                      \<and> parts c' = Some (before' @ p' # after') \<and> inlineData p' = Some b'
                      \<and> (\<forall>q \<in> set after'. inlineData q = None)
                      \<and> imageUrl result
                          = ''data:'' @ template (mimeType b') @ '';base64,''
                              @ template (data b')"
    using nb c ps d by blast+
next
  let ?alone = "response\<lparr>candidates := Some [first]\<rparr>"
  have a': "responding_service ?alone (generation_request imageBase64 mime hairstyleName preference)
              = Inr ?alone"
    by (simp add: responding_service_def)
  have br: "block_reason ?alone = block_reason response"
    by (simp add: block_reason_def)
  have sr: "scan_response ?alone = scan_response response"
    using cands by (simp add: scan_response_def)
  note one = generate_unfold [where ai = "responding_service ?alone" and response = ?alone
      and hairLength = hairLength, OF a']
  note all = generate_unfold [where ai = ai and response = response
      and hairLength = hairLength, OF call]
  show "generateHairstyleImage (responding_service ?alone)
              imageBase64 mime hairstyleName hairLength preference
             = generateHairstyleImage ai imageBase64 mime hairstyleName hairLength preference"
    unfolding one all br sr ..
qed

theorem last_image_of_first_candidate_witness:
  "block_reason two_images_response = None
   \<and> candidates two_images_response
       = Some (candidate_of ([image_part ''AAAA'', text_part ''Selesai'']
                  @ image_part ''BBBB'' # [text_part ''Akhir''])
               # [candidate_of [image_part ''CCCC'', text_part ''Lain'']])
   \<and> (\<exists>result. generateHairstyleImage (responding_service two_images_response) ''AAAA''
          ''image/png'' ''Bob'' ''Long'' ''Pendek'' = Inr result
        \<and> imageUrl result = ''data:image/png;base64,BBBB'')
   \<and> generateHairstyleImage (responding_service two_images_response) ''AAAA''
          ''image/png'' ''Bob'' ''Long'' ''Pendek''
       = Inr \<lparr>imageUrl = ''data:image/png;base64,BBBB'', result_text = ''Akhir''\<rparr>"
proof -
  let ?first = "candidate_of ([image_part ''AAAA'', text_part ''Selesai'']
                  @ image_part ''BBBB'' # [text_part ''Akhir''])"
  have a: "responding_service two_images_response
             (generation_request ''AAAA'' ''image/png'' ''Bob'' ''Pendek'') = Inr two_images_response"
    by (simp add: responding_service_def)
  have b: "candidates two_images_response
             = Some (?first # [candidate_of [image_part ''CCCC'', text_part ''Lain'']])"
    by (simp add: two_images_response_def)
  have n: "block_reason two_images_response = None"
    by (simp add: two_images_response_def block_reason_def)
  have c: "content ?first = Some \<lparr>parts = Some ([image_part ''AAAA'', text_part ''Selesai'']
                  @ image_part ''BBBB'' # [text_part ''Akhir''])\<rparr>"
    by (simp add: candidate_of_def)
  have p: "inlineData (image_part ''BBBB'')
             = Some \<lparr>data = Some ''BBBB'', mimeType = Some ''image/png''\<rparr>"
    by (simp add: image_part_def)
  have q: "\<forall>q \<in> set [text_part ''Akhir'']. inlineData q = None"
    by (simp add: text_part_def)
  have e: "generateHairstyleImage (responding_service two_images_response) ''AAAA''
          ''image/png'' ''Bob'' ''Long'' ''Pendek''
       = Inr \<lparr>imageUrl = ''data:image/png;base64,BBBB'', result_text = ''Akhir''\<rparr>"
    by (simp add: generateHairstyleImage_def responding_service_def two_images_response_def
          block_reason_def scan_response_def candidate_of_def image_part_def text_part_def
          data_url_def default_text_def)
  have "\<exists>result. generateHairstyleImage (responding_service two_images_response) ''AAAA''
          ''image/png'' ''Bob'' ''Long'' ''Pendek'' = Inr result
        \<and> imageUrl result = ''data:image/png;base64,BBBB''"
    using last_image_of_first_candidate [where ai = "responding_service two_images_response"
        and hairLength = "''Long''"
        and c = "\<lparr>parts = Some ([image_part ''AAAA'', text_part ''Selesai'']
                  @ image_part ''BBBB'' # [text_part ''Akhir''])\<rparr>"
        and before = "[image_part ''AAAA'', text_part ''Selesai'']"
        and p = "image_part ''BBBB''" and after = "[text_part ''Akhir'']"
        and b = "\<lparr>data = Some ''BBBB'', mimeType = Some ''image/png''\<rparr>", OF a b]
      n c p q
    by simp
  then show ?thesis using n b e by simp
qed

section \<open>Properties of the orchestrator\<close>

lemma after_allSettled_fields:
  "pending (after_allSettled r s) = pending s"
  "issued (after_allSettled r s) = issued s"
  "nextRun (after_allSettled r s) = nextRun s"
  "generatedImages (after_allSettled r s) = generatedImages s"
  "completed (after_allSettled r s) =
     (if list_all (\<lambda>c. call_run c \<noteq> r) (pending s) then completed s @ [r] else completed s)"
  "appState (after_allSettled r s) =
     (if list_all (\<lambda>c. call_run c \<noteq> r) (pending s) then COMPLETE else appState s)"
  by (simp_all add: after_allSettled_def)







subsection \<open>Invocation numbers\<close>







subsection \<open>The wait of one invocation\<close>







subsection \<open>One invocation whose calls settle\<close>





subsection \<open>Evaluating the sample runs\<close>

lemmas run_defs = run_events_def initial_app_def analyzed_trace_def sample_image_def
  sample_analysis_def handleReset_def processFile_def processFile_settled_def
  handleAnalyzeClick_def handleAnalyzeClick_settled_def handlePreferenceSelect_def
  generation_settled_def after_allSettled_def generation_call_def initialImageStates_def
  Let_def settles_def sample_result_def sample_failure_def

lemma analyzed_app_eval:
  "analyzed_app =
     \<lparr>appState = ANALYZED, originalImage = Some sample_image,
      analysisResult = Some sample_analysis, haircutPreference = None,
      generatedImages = Map.empty, error = None, issued = [], pending = [], completed = [],
      nextRun = 0, pendingAnalyses = 0, pendingFiles = 0\<rparr>"
  by (simp add: analyzed_app_def run_defs)

subsection \<open>The fan-out of generation calls\<close>




subsection \<open>Results that arrive late\<close>

text \<open>
  Claim C2, as stated, fails: the calls carry no mark of the invocation that issued them,
  and the handler of a settling call updates whatever mapping is current. After a reset
  with three calls in flight the mapping is empty, and the result of the first call is
  then written into it; after a new image, a new analysis and the selection of
  \<open>Pendek\<close>, the failure of a call issued for \<open>Sedang\<close> replaces the pending entry of
  the new selection.
\<close>

theorem late_result_counterexample:
  "generatedImages abandoned_app = Map.empty
   \<and> appState abandoned_app = INITIAL
   \<and> call_haircutPreference (pending abandoned_app ! 0) = ''Sedang''
   \<and> generatedImages (generation_settled 0 (Inr sample_result) abandoned_app) ''Bob''
       = Some \<lparr>generated_url = Some ''data:image/png;base64,BBBB'', generated_error = None,
               loading = False\<rparr>
   \<and> haircutPreference newer_run_app = Some ''Pendek''
   \<and> call_haircutPreference (pending newer_run_app ! 0) = ''Sedang''
   \<and> generatedImages newer_run_app ''Bob''
       = Some \<lparr>generated_url = None, generated_error = None, loading = True\<rparr>
   \<and> generatedImages (generation_settled 0 (Inl sample_failure) newer_run_app) ''Bob''
       = Some \<lparr>generated_url = None,
               generated_error = Some (blocked_message ''SAFETY''), loading = False\<rparr>"
  by (simp add: newer_run_app_def abandoned_app_def analyzed_app_eval run_defs
        blocked_message_def)

text \<open>
  Claim C2, amended. A reset empties the outcome mapping, and a preference selection made
  while a generation is running is ignored. When a call in flight settles, whichever
  invocation issued it and whatever happened since, its result or error is written under
  its hairstyle name into the mapping that is current then, and every other entry stays
  as it is.
\<close>

theorem late_result_written:
  "generatedImages (handleReset s) = Map.empty
   \<and> (appState s = GENERATING \<longrightarrow> handlePreferenceSelect preference s = s)
   \<and> (i < length (pending s) \<longrightarrow>
        generatedImages (generation_settled i outcome s)
          = (generatedImages s)(call_hairstyleName (pending s ! i) \<mapsto> settled_entry outcome))"
  by (simp add: handleReset_def generation_settled_def Let_def after_allSettled_fields
        handlePreferenceSelect_def split: option.splits)

theorem late_result_written_witness:
  "appState newer_run_app = GENERATING
   \<and> handlePreferenceSelect ''Sedang'' newer_run_app = newer_run_app
   \<and> 0 < length (pending abandoned_app)
   \<and> generatedImages (generation_settled 0 (Inr sample_result) abandoned_app)
       = (generatedImages abandoned_app)
           (call_hairstyleName (pending abandoned_app ! 0) \<mapsto> settled_entry (Inr sample_result))"
proof -
  have g: "appState newer_run_app = GENERATING"
    by (simp add: newer_run_app_def abandoned_app_def analyzed_app_eval run_defs)
  have p: "0 < length (pending abandoned_app)"
    by (simp add: abandoned_app_def analyzed_app_eval run_defs)
  show ?thesis
    using late_result_written [of newer_run_app "''Sedang''" 0 "Inr sample_result"]
      late_result_written [of abandoned_app "''Sedang''" 0 "Inr sample_result"] g p
    by simp
qed

end
